theory Spec2Isabelle
  imports Main "HOL-Library.Multiset"
begin

section \<open>Python values, exceptions and string helpers\<close>

text \<open>
  The arguments of \<^verbatim>\<open>filter_by_hierarchy\<close> are dynamically typed. The code inspects
  them with truth tests, \<^verbatim>\<open>hasattr(ref, "id")\<close>, \<^verbatim>\<open>isinstance\<close> and iteration
  (\<^verbatim>\<open>str.join\<close>), so the value universe distinguishes exactly what those tests see:
  \<^item> \<open>Scalar\<close>: \<^verbatim>\<open>None\<close>, a \<^verbatim>\<open>bool\<close> (a subclass of \<^verbatim>\<open>int\<close>), an \<^verbatim>\<open>int\<close>, a string;
  \<^item> \<open>PList\<close>: a list of values; \<open>PTuple\<close>: a tuple of values (the two differ
    for the \<^verbatim>\<open>%\<close> operator, which takes a tuple as its list of arguments);
  \<^item> \<open>Instance\<close>: an object with an \<^verbatim>\<open>id\<close> attribute (a model instance), carrying the
    value of that attribute; such objects are truthy;
  \<^item> \<open>FExpr\<close>: a Django \<^verbatim>\<open>F(name)\<close> expression;
  \<^item> \<open>Other\<close>: an object of any other kind (no \<^verbatim>\<open>id\<close>, not a string, int, list, tuple
    or \<^verbatim>\<open>F\<close>, not iterable), of which only the truth value matters.
\<close>

datatype pyscalar = SNone | SBool bool | SInt int | SStr string

datatype pyval =
    Scalar pyscalar
  | PList "pyval list"
  | PTuple "pyval list"
  | Instance pyscalar
  | FExpr string
  | Other bool

text \<open>
  The exceptions that can leave the code. \<open>NotAValidReference v\<close> is the
  \<^verbatim>\<open>Exception("Not a valid reference: %r" % ref)\<close> of \<^verbatim>\<open>_as_sql_reference\<close> (the spec's
  InvalidReferenceKind), with the value \<open>v\<close> that its message shows; \<open>AssertionError\<close> is
  the failed \<^verbatim>\<open>assert\<close> of \<^verbatim>\<open>_resolve_f_expression\<close> (the spec's
  UnsupportedLookupQualifier); \<open>FieldError\<close> is Django's (the spec's FieldResolutionError).
\<close>

datatype error =
    TypeError
  | AttributeError
  | KeyError string
  | ValueError
  | IndexError
  | AssertionError
  | FieldError
  | NotAValidReference pyval

definition bind :: "error + 'a \<Rightarrow> ('a \<Rightarrow> error + 'b) \<Rightarrow> error + 'b" where
  "bind r f = (case r of Inl e \<Rightarrow> Inl e | Inr x \<Rightarrow> f x)"

text \<open>Python's truth test (\<^verbatim>\<open>if x:\<close>).\<close>

fun truthy :: "pyval \<Rightarrow> bool" where
  "truthy (Scalar SNone) = False"
| "truthy (Scalar (SBool b)) = b"
| "truthy (Scalar (SInt i)) = (i \<noteq> 0)"
| "truthy (Scalar (SStr s)) = (s \<noteq> [])"
| "truthy (PList xs) = (xs \<noteq> [])"
| "truthy (PTuple xs) = (xs \<noteq> [])"
| "truthy (Instance i) = True"
| "truthy (FExpr n) = True"
| "truthy (Other b) = b"

text \<open>\<^verbatim>\<open>str(x)\<close> of a scalar, as \<^verbatim>\<open>str.format\<close> applies it to a field's value.\<close>

definition digit_char :: "nat \<Rightarrow> char" where
  "digit_char d = ''0123456789'' ! d"

fun digits :: "nat \<Rightarrow> string" where
  "digits n = (if n < 10 then [digit_char n] else digits (n div 10) @ [digit_char (n mod 10)])"

declare digits.simps [simp del]

definition str_int :: "int \<Rightarrow> string" where
  "str_int i = (if i < 0 then CHR ''-'' # digits (nat (- i)) else digits (nat i))"

fun py_str :: "pyscalar \<Rightarrow> string" where
  "py_str SNone = ''None''"
| "py_str (SBool b) = (if b then ''True'' else ''False'')"
| "py_str (SInt i) = str_int i"
| "py_str (SStr s) = s"

text \<open>\<^verbatim>\<open>sep.join(xs)\<close> on a list of strings.\<close>

fun join :: "string \<Rightarrow> string list \<Rightarrow> string" where
  "join sep [] = []"
| "join sep [x] = x"
| "join sep (x # y # ys) = x @ sep @ join sep (y # ys)"

text \<open>
  \<^verbatim>\<open>template.format(**d)\<close> for the templates of this program: plain text with
  replacement fields \<^verbatim>\<open>{name}\<close>. A field whose name is not a key raises KeyError, an
  unmatched brace raises ValueError. The inserted value is not scanned again. The second
  argument is the field name read so far (\<open>None\<close> outside a field), in reverse.
\<close>

fun format_from :: "(string \<rightharpoonup> string) \<Rightarrow> string option \<Rightarrow> string \<Rightarrow> error + string" where
  "format_from d None [] = Inr []"
| "format_from d (Some acc) [] = Inl ValueError"
| "format_from d None (c # cs) =
     (if c = CHR ''{'' then format_from d (Some []) cs
      else if c = CHR ''}'' then Inl ValueError
      else bind (format_from d None cs) (\<lambda>r. Inr (c # r)))"
| "format_from d (Some acc) (c # cs) =
     (if c = CHR ''}'' then
        (case d (rev acc) of
           None \<Rightarrow> Inl (KeyError (rev acc))
         | Some v \<Rightarrow> bind (format_from d None cs) (\<lambda>r. Inr (v @ r)))
      else format_from d (Some (c # acc)) cs)"

definition py_format :: "string \<Rightarrow> (string \<rightharpoonup> string) \<Rightarrow> error + string" where
  "py_format template d = format_from d None template"

text \<open>A list comprehension over a fallible function: the first exception ends it.\<close>

fun map_result :: "('a \<Rightarrow> error + 'b) \<Rightarrow> 'a list \<Rightarrow> error + 'b list" where
  "map_result f [] = Inr []"
| "map_result f (x # xs) = bind (f x) (\<lambda>y. bind (map_result f xs) (\<lambda>ys. Inr (y # ys)))"

section \<open>Querysets\<close>

text \<open>
  A queryset is known to this code only through three operations of the query library:
  \<^verbatim>\<open>Model.objects.all()\<close>, \<^verbatim>\<open>qs.extra(tables=..., where=...)\<close> and \<^verbatim>\<open>a | b\<close>.
  The model records which of them built a value, and with which arguments. What the
  library does to the objects it is called on is not part of the model.
  \<open>ClassObject\<close> is a class that is not a model, which the constructor stores as it is; it
  has no \<^verbatim>\<open>extra\<close> method.
\<close>

datatype queryset =
    ObjectsAll string
  | ClassObject string
  | Extra queryset "string list option" "string list option"
  | Union queryset queryset

fun extra :: "queryset \<Rightarrow> string list option \<Rightarrow> string list option \<Rightarrow> error + queryset" where
  "extra (ClassObject c) ts ws = Inl AttributeError"
| "extra q ts ws = Inr (Extra q ts ws)"

text \<open>
  The keyword arguments \<^verbatim>\<open>**kwargs\<close> of \<^verbatim>\<open>_add_extras\<close>: each of the keys
  \<^verbatim>\<open>"tables"\<close> and \<^verbatim>\<open>"where"\<close> is present or not.
\<close>

record kwargs =
  kw_tables :: "string list option"
  kw_where :: "string list option"

section \<open>What the code takes from the rest of the system\<close>

text \<open>
  The modules \<^verbatim>\<open>.constants\<close> and \<^verbatim>\<open>.models\<close> and the query library are not part of
  the source file; what the code reads from them is a parameter:
  \<^item> \<open>FACILITY\<close>: \<^verbatim>\<open>collection_kinds.FACILITY\<close>;
  \<^item> the four \<^verbatim>\<open>_meta.db_table\<close> names of Role, Collection, Membership, FacilityUser;
  \<^item> \<open>model_db_table\<close>: \<^verbatim>\<open>self.queryset.model._meta.db_table\<close>;
  \<^item> \<open>resolve_expression name\<close>: \<^verbatim>\<open>F(name).resolve_expression(self.queryset.query)\<close>,
    giving \<^verbatim>\<open>expression.target.get_attname()\<close> or raising;
  \<^item> \<open>solve_lookup_type name\<close>: \<^verbatim>\<open>self.queryset.query.solve_lookup_type(name)\<close>,
    giving the lookups and the parts, or raising.
\<close>

record env =
  FACILITY :: string
  role_db_table :: string
  collection_db_table :: string
  membership_db_table :: string
  facilityuser_db_table :: string
  model_db_table :: string
  resolve_expression :: "string \<Rightarrow> error + string"
  solve_lookup_type :: "string \<Rightarrow> error + (string list \<times> string list)"

section \<open>The class HierarchyRelationsFilter\<close>

record hrf =
  queryset :: queryset
  table_names :: "string \<rightharpoonup> string"

definition role_extra :: kwargs where
  "role_extra = \<lparr>
     kw_tables = Some [''\"{facilityuser_table}\" AS \"source_user\"'',
                       ''\"{role_table}\" AS \"role\"''],
     kw_where = Some [''role.user_id = source_user.id'',
                      ''role.collection_id = ancestor_collection.id''] \<rparr>"

definition collection_extra :: kwargs where
  "collection_extra = \<lparr>
     kw_tables = Some [''\"{collection_table}\" AS \"ancestor_collection\"'',
                       ''\"{collection_table}\" AS \"descendant_collection\"''],
     kw_where = Some [''descendant_collection.lft BETWEEN ancestor_collection.lft AND ancestor_collection.rght''] \<rparr>"

definition membership_extra :: kwargs where
  "membership_extra = \<lparr>
     kw_tables = Some [''\"{facilityuser_table}\" AS \"target_user\"'',
                       ''\"{membership_table}\" AS \"membership\"''],
     kw_where = Some [''membership.user_id = target_user.id'',
                      ''membership.collection_id = descendant_collection.id''] \<rparr>"

text \<open>
  The argument of the constructor: an already built QuerySet object (the documented use),
  which is not a class, or a class, given by its name and whether \<^verbatim>\<open>models.Model\<close> is
  among its ancestors.
\<close>

datatype init_arg =
    QuerySetInstance queryset
  | Class string bool

text \<open>
  \<^verbatim>\<open>issubclass(queryset, models.Model)\<close> raises TypeError when its first argument is not
  a class.
\<close>

definition issubclass_Model :: "init_arg \<Rightarrow> error + bool" where
  "issubclass_Model arg =
     (case arg of QuerySetInstance q \<Rightarrow> Inl TypeError | Class name is_model \<Rightarrow> Inr is_model)"

text \<open>\<^verbatim>\<open>queryset.objects.all()\<close>; a QuerySet object has no \<^verbatim>\<open>objects\<close> attribute.\<close>

definition objects_all :: "init_arg \<Rightarrow> error + queryset" where
  "objects_all arg =
     (case arg of QuerySetInstance q \<Rightarrow> Inl AttributeError | Class name is_model \<Rightarrow> Inr (ObjectsAll name))"

text \<open>The argument itself, as the value of \<^verbatim>\<open>self.queryset\<close>.\<close>

definition as_given :: "init_arg \<Rightarrow> queryset" where
  "as_given arg = (case arg of QuerySetInstance q \<Rightarrow> q | Class name is_model \<Rightarrow> ClassObject name)"

text \<open>\<^verbatim>\<open>__init__\<close>.\<close>

definition init :: "env \<Rightarrow> init_arg \<Rightarrow> error + hrf" where
  "init env arg =
     bind (issubclass_Model arg) (\<lambda>is_model.
     bind (if is_model then objects_all arg else Inr (as_given arg)) (\<lambda>qs.
       Inr \<lparr> queryset = qs,
             table_names = [''role_table'' \<mapsto> role_db_table env,
                            ''collection_table'' \<mapsto> collection_db_table env,
                            ''membership_table'' \<mapsto> membership_db_table env,
                            ''facilityuser_table'' \<mapsto> facilityuser_db_table env] \<rparr>))"

text \<open>\<^verbatim>\<open>_add_extras\<close>: format the tables, if any, and call \<^verbatim>\<open>queryset.extra\<close>.\<close>

definition add_extras :: "hrf \<Rightarrow> queryset \<Rightarrow> kwargs \<Rightarrow> error + queryset" where
  "add_extras self q kwargs =
     bind (case kw_tables kwargs of
             None \<Rightarrow> Inr None
           | Some ts \<Rightarrow>
               bind (map_result (\<lambda>table. py_format table (table_names self)) ts)
                 (\<lambda>fs. Inr (Some fs)))
       (\<lambda>ts. extra q ts (kw_where kwargs))"

text \<open>
  \<^verbatim>\<open>_resolve_f_expression\<close>. The expression is resolved first, then the lookup is
  solved and checked, then the last part is replaced (\<^verbatim>\<open>parts[-1] = ...\<close> raises
  IndexError on an empty list) and the reference is joined with dots.
\<close>

definition resolve_f_expression :: "env \<Rightarrow> hrf \<Rightarrow> string \<Rightarrow> error + string" where
  "resolve_f_expression env self name =
     (case queryset self of
        ClassObject c \<Rightarrow> Inl AttributeError
      | _ \<Rightarrow>
          bind (resolve_expression env name) (\<lambda>attname.
          bind (solve_lookup_type env name) (\<lambda>(lookups, parts).
            if \<not> (length lookups = 1 \<and> hd lookups = ''exact'') then Inl AssertionError
            else if parts = [] then Inl IndexError
            else Inr (join ''.'' ([model_db_table env] @ (butlast parts @ [attname]))))))"

text \<open>
  \<^verbatim>\<open>_as_sql_reference\<close>, the branches in the order of the source. The last branch
  builds its message with \<^verbatim>\<open>"Not a valid reference: %r" % ref\<close> before it raises: for
  a tuple, \<^verbatim>\<open>%\<close> takes the elements as the arguments of the format, so a tuple of one
  element gives the message for that element, and a tuple of any other length raises
  TypeError (too few or too many arguments for the one \<^verbatim>\<open>%r\<close>).
\<close>

fun as_sql_reference :: "env \<Rightarrow> hrf \<Rightarrow> pyval \<Rightarrow> error + pyscalar" where
  "as_sql_reference env self (Instance i) = Inr i"
| "as_sql_reference env self (Scalar (SStr s)) = Inr (SStr s)"
| "as_sql_reference env self (Scalar (SInt i)) = Inr (SInt i)"
| "as_sql_reference env self (Scalar (SBool b)) = Inr (SBool b)"
| "as_sql_reference env self (FExpr name) =
     bind (resolve_f_expression env self name) (\<lambda>r. Inr (SStr r))"
| "as_sql_reference env self (PTuple [x]) = Inl (NotAValidReference x)"
| "as_sql_reference env self (PTuple xs) = Inl TypeError"
| "as_sql_reference env self ref = Inl (NotAValidReference ref)"

text \<open>The string templates of \<^verbatim>\<open>filter_by_hierarchy\<close> that contain a single quote.\<close>

definition facility_kind_template :: string where
  "facility_kind_template = ''ancestor_collection.kind = '' @ [CHR 0x27] @ ''{facility_kind}'' @ [CHR 0x27]"

definition kinds_template :: string where
  "kinds_template = ''('' @ [CHR 0x27] @ ''{kind_list}'' @ [CHR 0x27] @ '')''"

definition kinds_separator :: string where
  "kinds_separator = [CHR 0x27] @ '','' @ [CHR 0x27]"

text \<open>
  \<^verbatim>\<open>sep.join(x)\<close> on a Python value: a list or tuple must hold strings only, a string
  is iterated by characters, anything else is not iterable.
\<close>

fun str_items :: "pyval list \<Rightarrow> error + string list" where
  "str_items [] = Inr []"
| "str_items (Scalar (SStr s) # xs) = bind (str_items xs) (\<lambda>ss. Inr (s # ss))"
| "str_items (x # xs) = Inl TypeError"

fun py_join :: "string \<Rightarrow> pyval \<Rightarrow> error + string" where
  "py_join sep (PList xs) = bind (str_items xs) (\<lambda>ss. Inr (join sep ss))"
| "py_join sep (PTuple xs) = bind (str_items xs) (\<lambda>ss. Inr (join sep ss))"
| "py_join sep (Scalar (SStr s)) = Inr (join sep (map (\<lambda>c. [c]) s))"
| "py_join sep v = Inl TypeError"

text \<open>Step 1(a): the two ways for the target user to be a member, joined with \<^verbatim>\<open>|\<close>.\<close>

definition step_1a :: "env \<Rightarrow> hrf \<Rightarrow> pyval \<Rightarrow> queryset \<Rightarrow> error + queryset" where
  "step_1a env self target_user q =
     (if truthy target_user then
        bind (add_extras self q membership_extra) (\<lambda>member_via_hierarchy.
        bind (py_format facility_kind_template [''facility_kind'' \<mapsto> FACILITY env]) (\<lambda>kind_clause.
        bind (add_extras self q
                \<lparr> kw_tables = None,
                  kw_where = Some [kind_clause,
                                   ''ancestor_collection.dataset_id = target_user.dataset_id''] \<rparr>)
          (\<lambda>member_via_facility. Inr (Union member_via_facility member_via_hierarchy))))
      else Inr q)"

text \<open>Step 1(b): the ancestor and descendant collections, always.\<close>

definition step_1b :: "hrf \<Rightarrow> queryset \<Rightarrow> error + queryset" where
  "step_1b self q = add_extras self q collection_extra"

text \<open>Step 1(c): the source user and the role, if either is constrained.\<close>

definition step_1c :: "hrf \<Rightarrow> pyval \<Rightarrow> pyval \<Rightarrow> queryset \<Rightarrow> error + queryset" where
  "step_1c self source_user role_kind q =
     (if truthy source_user \<or> truthy role_kind then add_extras self q role_extra else Inr q)"

text \<open>
  Step 2. The blocks for the source user, the two collections and the target user differ
  only in the template; \<open>constrain_id\<close> is that block.
\<close>

definition constrain_id :: "string \<Rightarrow> env \<Rightarrow> hrf \<Rightarrow> pyval \<Rightarrow> queryset \<Rightarrow> error + queryset" where
  "constrain_id template env self ref q =
     (if truthy ref then
        bind (as_sql_reference env self ref) (\<lambda>r.
        bind (py_format template [''id'' \<mapsto> py_str r]) (\<lambda>clause.
        add_extras self q \<lparr> kw_tables = None, kw_where = Some [clause] \<rparr>))
      else Inr q)"

definition constrain_source_user :: "env \<Rightarrow> hrf \<Rightarrow> pyval \<Rightarrow> queryset \<Rightarrow> error + queryset" where
  "constrain_source_user = constrain_id ''source_user.id = {id}''"

definition constrain_ancestor_collection :: "env \<Rightarrow> hrf \<Rightarrow> pyval \<Rightarrow> queryset \<Rightarrow> error + queryset" where
  "constrain_ancestor_collection = constrain_id ''ancestor_collection.id = {id}''"

definition constrain_descendant_collection :: "env \<Rightarrow> hrf \<Rightarrow> pyval \<Rightarrow> queryset \<Rightarrow> error + queryset" where
  "constrain_descendant_collection = constrain_id ''descendant_collection.id = {id}''"

definition constrain_target_user :: "env \<Rightarrow> hrf \<Rightarrow> pyval \<Rightarrow> queryset \<Rightarrow> error + queryset" where
  "constrain_target_user = constrain_id ''target_user.id = {id}''"

definition constrain_role_kind :: "hrf \<Rightarrow> pyval \<Rightarrow> queryset \<Rightarrow> error + queryset" where
  "constrain_role_kind self role_kind q =
     (if truthy role_kind then
        bind (py_join kinds_separator
                (case role_kind of Scalar (SStr s) \<Rightarrow> PList [role_kind] | _ \<Rightarrow> role_kind))
          (\<lambda>kind_list.
        bind (py_format kinds_template [''kind_list'' \<mapsto> kind_list]) (\<lambda>kinds_string.
        bind (py_format ''role.kind IN {kinds}'' [''kinds'' \<mapsto> kinds_string]) (\<lambda>clause.
        add_extras self q \<lparr> kw_tables = None, kw_where = Some [clause] \<rparr>)))
      else Inr q)"

text \<open>\<^verbatim>\<open>filter_by_hierarchy\<close>: the steps in the order of the source.\<close>

definition filter_by_hierarchy ::
  "env \<Rightarrow> hrf \<Rightarrow> pyval \<Rightarrow> pyval \<Rightarrow> pyval \<Rightarrow> pyval \<Rightarrow> pyval \<Rightarrow> error + queryset" where
  "filter_by_hierarchy env self source_user role_kind ancestor_collection
       descendant_collection target_user =
     bind (step_1a env self target_user (queryset self)) (\<lambda>q1.
     bind (step_1b self q1) (\<lambda>q2.
     bind (step_1c self source_user role_kind q2) (\<lambda>q3.
     bind (constrain_source_user env self source_user q3) (\<lambda>q4.
     bind (constrain_role_kind self role_kind q4) (\<lambda>q5.
     bind (constrain_ancestor_collection env self ancestor_collection q5) (\<lambda>q6.
     bind (constrain_descendant_collection env self descendant_collection q6) (\<lambda>q7.
     constrain_target_user env self target_user q7)))))))"

section \<open>Reading a composed queryset\<close>

text \<open>
  A result of the code is a stack of \<^verbatim>\<open>extra\<close> calls on some queryset. \<open>core\<close> is the
  queryset under the outermost run of \<^verbatim>\<open>extra\<close> calls, and \<open>layers\<close> lists the arguments
  of these calls, the first call first.
\<close>

fun core :: "queryset \<Rightarrow> queryset" where
  "core (Extra q ts ws) = core q"
| "core q = q"

fun layers :: "queryset \<Rightarrow> (string list option \<times> string list option) list" where
  "layers (Extra q ts ws) = layers q @ [(ts, ws)]"
| "layers q = []"

text \<open>A table declaration after formatting: \<^verbatim>\<open>"<table>" AS "<alias>"\<close>.\<close>

definition aliased :: "string \<Rightarrow> string \<Rightarrow> string" where
  "aliased t a = [CHR 0x22] @ t @ [CHR 0x22] @ '' AS '' @ [CHR 0x22] @ a @ [CHR 0x22]"

text \<open>
  The condition a queryset stands for, given the truth value of each raw clause (for one
  assignment of rows to the aliases): \<^verbatim>\<open>extra(where=...)\<close> adds its clauses
  conjunctively, \<^verbatim>\<open>|\<close> is the disjunction.
\<close>

fun clauses :: "string list option \<Rightarrow> string list" where
  "clauses None = []"
| "clauses (Some ws) = ws"

fun holds :: "(string \<Rightarrow> bool) \<Rightarrow> queryset \<Rightarrow> bool" where
  "holds val (ObjectsAll m) = True"
| "holds val (ClassObject c) = True"
| "holds val (Extra q ts ws) = (holds val q \<and> list_all val (clauses ws))"
| "holds val (Union a b) = (holds val a \<or> holds val b)"

section \<open>The value constraints in another order\<close>

text \<open>
  The source attaches the five value constraints of step 2 in one order. To compare it
  with the other orders, the five blocks are indexed by the parameter they read, and
  \<open>filter_in_order\<close> runs step 1 and then the blocks in a given order.
\<close>

datatype param = SourceUser | RoleKind | AncestorCollection | DescendantCollection | TargetUser

fun arguments :: "pyval \<Rightarrow> pyval \<Rightarrow> pyval \<Rightarrow> pyval \<Rightarrow> pyval \<Rightarrow> param \<Rightarrow> pyval" where
  "arguments su rk ac dc tu SourceUser = su"
| "arguments su rk ac dc tu RoleKind = rk"
| "arguments su rk ac dc tu AncestorCollection = ac"
| "arguments su rk ac dc tu DescendantCollection = dc"
| "arguments su rk ac dc tu TargetUser = tu"

fun constrain :: "env \<Rightarrow> hrf \<Rightarrow> (param \<Rightarrow> pyval) \<Rightarrow> param \<Rightarrow> queryset \<Rightarrow> error + queryset" where
  "constrain env self args SourceUser = constrain_source_user env self (args SourceUser)"
| "constrain env self args RoleKind = constrain_role_kind self (args RoleKind)"
| "constrain env self args AncestorCollection =
     constrain_ancestor_collection env self (args AncestorCollection)"
| "constrain env self args DescendantCollection =
     constrain_descendant_collection env self (args DescendantCollection)"
| "constrain env self args TargetUser = constrain_target_user env self (args TargetUser)"

fun attach_all :: "env \<Rightarrow> hrf \<Rightarrow> (param \<Rightarrow> pyval) \<Rightarrow> param list \<Rightarrow> queryset \<Rightarrow> error + queryset" where
  "attach_all env self args [] q = Inr q"
| "attach_all env self args (p # ps) q =
     bind (constrain env self args p q) (attach_all env self args ps)"

definition structural_joins :: "env \<Rightarrow> hrf \<Rightarrow> (param \<Rightarrow> pyval) \<Rightarrow> error + queryset" where
  "structural_joins env self args =
     bind (step_1a env self (args TargetUser) (queryset self)) (\<lambda>q1.
     bind (step_1b self q1) (\<lambda>q2.
     step_1c self (args SourceUser) (args RoleKind) q2))"

definition filter_in_order :: "env \<Rightarrow> hrf \<Rightarrow> (param \<Rightarrow> pyval) \<Rightarrow> param list \<Rightarrow> error + queryset" where
  "filter_in_order env self args ps =
     bind (structural_joins env self args) (attach_all env self args ps)"

definition source_order :: "param list" where
  "source_order = [SourceUser, RoleKind, AncestorCollection, DescendantCollection, TargetUser]"

text \<open>
  What one block of step 2 does, apart from the queryset it is given: it raises, or it
  attaches nothing (the parameter is falsy), or it attaches one clause.
\<close>

definition id_clause :: "string \<Rightarrow> env \<Rightarrow> hrf \<Rightarrow> pyval \<Rightarrow> error + string option" where
  "id_clause template env self ref =
     (if truthy ref then
        bind (as_sql_reference env self ref) (\<lambda>r.
        bind (py_format template [''id'' \<mapsto> py_str r]) (\<lambda>clause. Inr (Some clause)))
      else Inr None)"

definition kind_clause :: "pyval \<Rightarrow> error + string option" where
  "kind_clause role_kind =
     (if truthy role_kind then
        bind (py_join kinds_separator
                (case role_kind of Scalar (SStr s) \<Rightarrow> PList [role_kind] | _ \<Rightarrow> role_kind))
          (\<lambda>kind_list.
        bind (py_format kinds_template [''kind_list'' \<mapsto> kind_list]) (\<lambda>kinds_string.
        bind (py_format ''role.kind IN {kinds}'' [''kinds'' \<mapsto> kinds_string]) (\<lambda>clause.
        Inr (Some clause))))
      else Inr None)"

fun param_clause :: "env \<Rightarrow> hrf \<Rightarrow> (param \<Rightarrow> pyval) \<Rightarrow> param \<Rightarrow> error + string option" where
  "param_clause env self args SourceUser =
     id_clause ''source_user.id = {id}'' env self (args SourceUser)"
| "param_clause env self args RoleKind = kind_clause (args RoleKind)"
| "param_clause env self args AncestorCollection =
     id_clause ''ancestor_collection.id = {id}'' env self (args AncestorCollection)"
| "param_clause env self args DescendantCollection =
     id_clause ''descendant_collection.id = {id}'' env self (args DescendantCollection)"
| "param_clause env self args TargetUser =
     id_clause ''target_user.id = {id}'' env self (args TargetUser)"

fun clause_layer :: "error + string option \<Rightarrow> (string list option \<times> string list option) list" where
  "clause_layer (Inr (Some w)) = [(None, Some [w])]"
| "clause_layer r = []"

section \<open>An example instance\<close>

text \<open>
  A schema with the field \<^verbatim>\<open>id\<close>; a name with a lookup suffix such as \<^verbatim>\<open>id__gt\<close> does
  not resolve as a field reference, and its lookup is the suffix.
\<close>

definition example_env :: env where
  "example_env = \<lparr>
     FACILITY = ''facility'',
     role_db_table = ''auth_role'',
     collection_db_table = ''auth_collection'',
     membership_db_table = ''auth_membership'',
     facilityuser_db_table = ''auth_facilityuser'',
     model_db_table = ''auth_facilityuser'',
     resolve_expression = (\<lambda>name. if name = ''id'' then Inr ''id'' else Inl FieldError),
     solve_lookup_type =
       (\<lambda>name. if name = ''id'' then Inr ([''exact''], [''id''])
                else if name = ''id__gt'' then Inr ([''gt''], [''id''])
                else Inl FieldError) \<rparr>"

definition example_self :: hrf where
  "example_self = \<lparr>
     queryset = ObjectsAll ''FacilityUser'',
     table_names = [''role_table'' \<mapsto> ''auth_role'',
                    ''collection_table'' \<mapsto> ''auth_collection'',
                    ''membership_table'' \<mapsto> ''auth_membership'',
                    ''facilityuser_table'' \<mapsto> ''auth_facilityuser''] \<rparr>"

text \<open>
  The result of the call with \<^verbatim>\<open>source_user=F("id")\<close>, \<^verbatim>\<open>role_kind="admin"\<close>,
  \<^verbatim>\<open>descendant_collection=12\<close> and a model instance with id 7 as \<^verbatim>\<open>target_user\<close>.
\<close>

definition example_result :: queryset where
  "example_result =
     Extra (Extra (Extra (Extra (Extra (Extra
       (Union
          (Extra (ObjectsAll ''FacilityUser'') None
             (Some [''ancestor_collection.kind = '' @ [CHR 0x27] @ ''facility'' @ [CHR 0x27],
                    ''ancestor_collection.dataset_id = target_user.dataset_id'']))
          (Extra (ObjectsAll ''FacilityUser'')
             (Some [''\"auth_facilityuser\" AS \"target_user\"'',
                    ''\"auth_membership\" AS \"membership\"''])
             (Some [''membership.user_id = target_user.id'',
                    ''membership.collection_id = descendant_collection.id''])))
       (Some [''\"auth_collection\" AS \"ancestor_collection\"'',
              ''\"auth_collection\" AS \"descendant_collection\"''])
       (Some [''descendant_collection.lft BETWEEN ancestor_collection.lft AND ancestor_collection.rght'']))
       (Some [''\"auth_facilityuser\" AS \"source_user\"'', ''\"auth_role\" AS \"role\"''])
       (Some [''role.user_id = source_user.id'', ''role.collection_id = ancestor_collection.id'']))
       None (Some [''source_user.id = auth_facilityuser.id'']))
       None (Some [''role.kind IN ('' @ [CHR 0x27] @ ''admin'' @ [CHR 0x27] @ '')'']))
       None (Some [''descendant_collection.id = 12'']))
       None (Some [''target_user.id = 7''])"

text \<open>The clause \<^verbatim>\<open>role.kind IN ('k1','k2',...)\<close> for a list of kinds.\<close>

definition in_clause :: "string list \<Rightarrow> string" where
  "in_clause ks = ''role.kind IN ('' @ [CHR 0x27] @ join kinds_separator ks @ [CHR 0x27] @ '')''"

text \<open>The layer that step 1(b) attaches, for the collection table \<open>c\<close>.\<close>

definition containment_layer :: "string \<Rightarrow> string list option \<times> string list option" where
  "containment_layer c =
     (Some [aliased c ''ancestor_collection'', aliased c ''descendant_collection''],
      Some [''descendant_collection.lft BETWEEN ancestor_collection.lft AND ancestor_collection.rght''])"

text \<open>
  The same schema with a field resolution that accepts every name, so that a lookup
  suffix reaches the check of the lookups.
\<close>

definition example_env_lenient :: env where
  "example_env_lenient = example_env \<lparr> resolve_expression := (\<lambda>name. Inr ''id'') \<rparr>"

section \<open>Basic facts\<close>

lemma bind_Inl [simp]: "bind (Inl e) f = Inl e"
  by (simp add: bind_def)

lemma bind_Inr [simp]: "bind (Inr x) f = f x"
  by (simp add: bind_def)

lemma bind_eq_Inr: "bind r f = Inr y \<longleftrightarrow> (\<exists>x. r = Inr x \<and> f x = Inr y)"
  by (cases r) simp_all

lemma format_source_user:
  "py_format ''\"{facilityuser_table}\" AS \"source_user\"'' d =
     (case d ''facilityuser_table'' of
        None \<Rightarrow> Inl (KeyError ''facilityuser_table'')
      | Some v \<Rightarrow> Inr (aliased v ''source_user''))"
  by (simp add: py_format_def aliased_def split: option.splits)

lemma format_role:
  "py_format ''\"{role_table}\" AS \"role\"'' d =
     (case d ''role_table'' of
        None \<Rightarrow> Inl (KeyError ''role_table'')
      | Some v \<Rightarrow> Inr (aliased v ''role''))"
  by (simp add: py_format_def aliased_def split: option.splits)

lemma format_ancestor:
  "py_format ''\"{collection_table}\" AS \"ancestor_collection\"'' d =
     (case d ''collection_table'' of
        None \<Rightarrow> Inl (KeyError ''collection_table'')
      | Some v \<Rightarrow> Inr (aliased v ''ancestor_collection''))"
  by (simp add: py_format_def aliased_def split: option.splits)

lemma format_descendant:
  "py_format ''\"{collection_table}\" AS \"descendant_collection\"'' d =
     (case d ''collection_table'' of
        None \<Rightarrow> Inl (KeyError ''collection_table'')
      | Some v \<Rightarrow> Inr (aliased v ''descendant_collection''))"
  by (simp add: py_format_def aliased_def split: option.splits)

lemma format_target_user:
  "py_format ''\"{facilityuser_table}\" AS \"target_user\"'' d =
     (case d ''facilityuser_table'' of
        None \<Rightarrow> Inl (KeyError ''facilityuser_table'')
      | Some v \<Rightarrow> Inr (aliased v ''target_user''))"
  by (simp add: py_format_def aliased_def split: option.splits)

lemma format_membership:
  "py_format ''\"{membership_table}\" AS \"membership\"'' d =
     (case d ''membership_table'' of
        None \<Rightarrow> Inl (KeyError ''membership_table'')
      | Some v \<Rightarrow> Inr (aliased v ''membership''))"
  by (simp add: py_format_def aliased_def split: option.splits)

lemma format_facility_kind:
  "py_format facility_kind_template [''facility_kind'' \<mapsto> v] =
     Inr (''ancestor_collection.kind = '' @ [CHR 0x27] @ v @ [CHR 0x27])"
  by (simp add: py_format_def facility_kind_template_def)

lemma format_kinds:
  "py_format kinds_template [''kind_list'' \<mapsto> v] = Inr (''('' @ [CHR 0x27] @ v @ [CHR 0x27] @ '')'')"
  by (simp add: py_format_def kinds_template_def)

lemma format_role_kind:
  "py_format ''role.kind IN {kinds}'' [''kinds'' \<mapsto> v] = Inr (''role.kind IN '' @ v)"
  by (simp add: py_format_def)

lemma format_source_user_id:
  "py_format ''source_user.id = {id}'' [''id'' \<mapsto> v] = Inr (''source_user.id = '' @ v)"
  by (simp add: py_format_def)

lemma format_ancestor_id:
  "py_format ''ancestor_collection.id = {id}'' [''id'' \<mapsto> v] = Inr (''ancestor_collection.id = '' @ v)"
  by (simp add: py_format_def)

lemma format_descendant_id:
  "py_format ''descendant_collection.id = {id}'' [''id'' \<mapsto> v] = Inr (''descendant_collection.id = '' @ v)"
  by (simp add: py_format_def)

lemma format_target_user_id:
  "py_format ''target_user.id = {id}'' [''id'' \<mapsto> v] = Inr (''target_user.id = '' @ v)"
  by (simp add: py_format_def)

lemma add_extras_where:
  "add_extras self q \<lparr> kw_tables = None, kw_where = ws \<rparr> = extra q None ws"
  by (simp add: add_extras_def)

lemma add_extras_membership:
  "add_extras self q membership_extra =
     (case table_names self ''facilityuser_table'' of
        None \<Rightarrow> Inl (KeyError ''facilityuser_table'')
      | Some fu \<Rightarrow>
          (case table_names self ''membership_table'' of
             None \<Rightarrow> Inl (KeyError ''membership_table'')
           | Some m \<Rightarrow>
               extra q (Some [aliased fu ''target_user'', aliased m ''membership''])
                 (Some [''membership.user_id = target_user.id'',
                        ''membership.collection_id = descendant_collection.id''])))"
  by (simp add: add_extras_def membership_extra_def format_target_user format_membership
      split: option.splits)

lemma add_extras_collection:
  "add_extras self q collection_extra =
     (case table_names self ''collection_table'' of
        None \<Rightarrow> Inl (KeyError ''collection_table'')
      | Some c \<Rightarrow>
          extra q (Some [aliased c ''ancestor_collection'', aliased c ''descendant_collection''])
            (Some [''descendant_collection.lft BETWEEN ancestor_collection.lft AND ancestor_collection.rght'']))"
  by (simp add: add_extras_def collection_extra_def format_ancestor format_descendant
      split: option.splits)

lemma add_extras_role:
  "add_extras self q role_extra =
     (case table_names self ''facilityuser_table'' of
        None \<Rightarrow> Inl (KeyError ''facilityuser_table'')
      | Some fu \<Rightarrow>
          (case table_names self ''role_table'' of
             None \<Rightarrow> Inl (KeyError ''role_table'')
           | Some r \<Rightarrow>
               extra q (Some [aliased fu ''source_user'', aliased r ''role''])
                 (Some [''role.user_id = source_user.id'',
                        ''role.collection_id = ancestor_collection.id''])))"
  by (simp add: add_extras_def role_extra_def format_source_user format_role
      split: option.splits)

lemma extra_Inr: "extra q ts ws = Inr q' \<Longrightarrow> q' = Extra q ts ws"
  by (cases q) simp_all

lemma extra_Extra [simp]: "extra (Extra q a b) ts ws = Inr (Extra (Extra q a b) ts ws)"
  by simp

lemma extra_Union [simp]: "extra (Union a b) ts ws = Inr (Extra (Union a b) ts ws)"
  by simp

section \<open>The steps of filter_by_hierarchy\<close>

lemma extra_eq_Inr: "extra q ts ws = Inr q' \<longleftrightarrow> (\<forall>c. q \<noteq> ClassObject c) \<and> q' = Extra q ts ws"
  by (cases q) auto

lemma step_1a_Inr:
  assumes "step_1a env self tu q = Inr q'"
  shows "(\<not> truthy tu \<and> q' = q) \<or>
         (truthy tu \<and> (\<exists>fu m. table_names self ''facilityuser_table'' = Some fu \<and>
            table_names self ''membership_table'' = Some m \<and>
            q' = Union
                   (Extra q None
                      (Some [''ancestor_collection.kind = '' @ [CHR 0x27] @ FACILITY env @ [CHR 0x27],
                             ''ancestor_collection.dataset_id = target_user.dataset_id'']))
                   (Extra q (Some [aliased fu ''target_user'', aliased m ''membership''])
                      (Some [''membership.user_id = target_user.id'',
                             ''membership.collection_id = descendant_collection.id'']))))"
  using assms
  by (auto simp: step_1a_def add_extras_membership add_extras_where format_facility_kind
      bind_eq_Inr extra_eq_Inr split: if_splits option.splits)

lemma step_1b_Inr:
  assumes "step_1b self q = Inr q'"
  shows "\<exists>c. table_names self ''collection_table'' = Some c \<and>
           q' = Extra q (Some [aliased c ''ancestor_collection'', aliased c ''descendant_collection''])
                  (Some [''descendant_collection.lft BETWEEN ancestor_collection.lft AND ancestor_collection.rght''])"
  using assms
  by (auto simp: step_1b_def add_extras_collection extra_eq_Inr split: option.splits)

lemma step_1c_Inr:
  assumes "step_1c self su rk q = Inr q'"
  shows "(\<not> (truthy su \<or> truthy rk) \<and> q' = q) \<or>
         ((truthy su \<or> truthy rk) \<and> (\<exists>fu r. table_names self ''facilityuser_table'' = Some fu \<and>
            table_names self ''role_table'' = Some r \<and>
            q' = Extra q (Some [aliased fu ''source_user'', aliased r ''role''])
                   (Some [''role.user_id = source_user.id'',
                          ''role.collection_id = ancestor_collection.id''])))"
  using assms
  by (auto simp: step_1c_def add_extras_role extra_eq_Inr split: if_splits option.splits)

text \<open>Each block of step 2 is its clause, attached with extra.\<close>

lemma constrain_id_clause:
  "constrain_id template env self ref q =
     bind (id_clause template env self ref)
       (\<lambda>c. case c of None \<Rightarrow> Inr q | Some w \<Rightarrow> extra q None (Some [w]))"
  by (cases "as_sql_reference env self ref")
     (auto simp: constrain_id_def id_clause_def add_extras_where bind_def split: sum.splits)

lemma constrain_role_kind_clause:
  "constrain_role_kind self rk q =
     bind (kind_clause rk)
       (\<lambda>c. case c of None \<Rightarrow> Inr q | Some w \<Rightarrow> extra q None (Some [w]))"
  by (auto simp: constrain_role_kind_def kind_clause_def add_extras_where bind_def split: sum.splits)

lemma constrain_param_clause:
  "constrain env self args p q =
     bind (param_clause env self args p)
       (\<lambda>c. case c of None \<Rightarrow> Inr q | Some w \<Rightarrow> extra q None (Some [w]))"
  by (cases p)
     (simp_all add: constrain_source_user_def constrain_ancestor_collection_def
        constrain_descendant_collection_def constrain_target_user_def
        constrain_id_clause constrain_role_kind_clause)

lemma filter_by_hierarchy_in_order:
  "filter_by_hierarchy env self su rk ac dc tu =
     filter_in_order env self (arguments su rk ac dc tu) source_order"
  by (simp add: filter_by_hierarchy_def filter_in_order_def structural_joins_def source_order_def
      bind_def split: sum.splits)

lemma attach_all_Inr:
  assumes "attach_all env self args ps (Extra q0 t w) = Inr q'"
  shows "core q' = core q0 \<and>
         layers q' = layers (Extra q0 t w) @
                       concat (map (\<lambda>p. clause_layer (param_clause env self args p)) ps) \<and>
         (\<forall>p \<in> set ps. \<not> isl (param_clause env self args p)) \<and>
         (\<exists>q1 t1 w1. q' = Extra q1 t1 w1)"
  using assms
proof (induction ps arbitrary: q0 t w)
  case Nil
  then show ?case by auto
next
  case (Cons p ps)
  show ?case
  proof (cases "param_clause env self args p")
    case (Inl e)
    with Cons.prems show ?thesis
      by (simp add: constrain_param_clause)
  next
    case (Inr c)
    show ?thesis
    proof (cases c)
      case None
      with Inr Cons.prems have "attach_all env self args ps (Extra q0 t w) = Inr q'"
        by (simp add: constrain_param_clause)
      from Cons.IH [OF this] Inr None show ?thesis
        by simp
    next
      case (Some cl)
      with Inr Cons.prems
      have "attach_all env self args ps (Extra (Extra q0 t w) None (Some [cl])) = Inr q'"
        by (simp add: constrain_param_clause)
      from Cons.IH [OF this] Inr Some show ?thesis
        by simp
    qed
  qed
qed

lemma attach_all_succeeds:
  assumes "\<forall>p \<in> set ps. \<not> isl (param_clause env self args p)"
  shows "\<exists>q'. attach_all env self args ps (Extra q0 t w) = Inr q'"
  using assms
proof (induction ps arbitrary: q0 t w)
  case Nil
  then show ?case by simp
next
  case (Cons p ps)
  from Cons.prems obtain c where c: "param_clause env self args p = Inr c"
    by (cases "param_clause env self args p") auto
  from Cons.prems have rest: "\<forall>p \<in> set ps. \<not> isl (param_clause env self args p)"
    by simp
  show ?case
  proof (cases c)
    case None
    with c Cons.IH [OF rest] show ?thesis
      by (simp add: constrain_param_clause)
  next
    case (Some cl)
    with c Cons.IH [OF rest, of "Extra q0 t w" None "Some [cl]"] show ?thesis
      by (simp add: constrain_param_clause)
  qed
qed

lemma structural_joins_Inr:
  assumes "structural_joins env self args = Inr q"
  shows "\<exists>q1 c rest q0 t w.
           step_1a env self (args TargetUser) (queryset self) = Inr q1 \<and>
           table_names self ''collection_table'' = Some c \<and>
           core q = core q1 \<and>
           layers q = layers q1 @
             (Some [aliased c ''ancestor_collection'', aliased c ''descendant_collection''],
              Some [''descendant_collection.lft BETWEEN ancestor_collection.lft AND ancestor_collection.rght''])
             # rest \<and>
           q = Extra q0 t w"
proof -
  from assms obtain q1 q2 where
    a: "step_1a env self (args TargetUser) (queryset self) = Inr q1" and
    b: "step_1b self q1 = Inr q2" and
    c: "step_1c self (args SourceUser) (args RoleKind) q2 = Inr q"
    by (auto simp: structural_joins_def bind_eq_Inr)
  from step_1b_Inr [OF b] obtain ct where
    ct: "table_names self ''collection_table'' = Some ct" and
    q2: "q2 = Extra q1 (Some [aliased ct ''ancestor_collection'', aliased ct ''descendant_collection''])
                  (Some [''descendant_collection.lft BETWEEN ancestor_collection.lft AND ancestor_collection.rght''])"
    by blast
  from step_1c_Inr [OF c] show ?thesis
  proof
    assume "\<not> (truthy (args SourceUser) \<or> truthy (args RoleKind)) \<and> q = q2"
    with a ct q2 show ?thesis by simp
  next
    assume "(truthy (args SourceUser) \<or> truthy (args RoleKind)) \<and>
      (\<exists>fu r. table_names self ''facilityuser_table'' = Some fu \<and>
         table_names self ''role_table'' = Some r \<and>
         q = Extra q2 (Some [aliased fu ''source_user'', aliased r ''role''])
               (Some [''role.user_id = source_user.id'', ''role.collection_id = ancestor_collection.id'']))"
    with a ct q2 show ?thesis by auto
  qed
qed

lemma holds_core_layers:
  "holds val q = (holds val (core q) \<and> list_all (\<lambda>l. list_all val (clauses (snd l))) (layers q))"
  by (induction q) auto

lemma mset_concat_map:
  "mset (concat (map f ps)) = (\<Sum>p \<in># mset ps. mset (f p))"
  by (induction ps) simp_all

section \<open>Running the example\<close>

lemmas run_simps =
  filter_by_hierarchy_def step_1a_def step_1b_def step_1c_def
  constrain_source_user_def constrain_ancestor_collection_def
  constrain_descendant_collection_def constrain_target_user_def
  constrain_id_def constrain_role_kind_def
  add_extras_where add_extras_membership add_extras_collection add_extras_role
  format_facility_kind format_kinds format_role_kind format_source_user_id
  format_ancestor_id format_descendant_id format_target_user_id
  resolve_f_expression_def kinds_separator_def aliased_def
  example_env_def example_self_def str_int_def digits.simps digit_char_def

lemma example_init: "init example_env (Class ''FacilityUser'' True) = Inr example_self"
  by (simp add: init_def issubclass_Model_def objects_all_def example_env_def example_self_def)

lemma example_run:
  "filter_by_hierarchy example_env example_self (FExpr ''id'') (Scalar (SStr ''admin''))
     (Scalar SNone) (Scalar (SInt 12)) (Instance (SInt 7)) = Inr example_result"
  by (simp add: run_simps example_result_def)

lemma filter_by_hierarchy_Inr:
  assumes "filter_by_hierarchy env self su rk ac dc tu = Inr q"
  shows "\<exists>q1 c rest.
           step_1a env self tu (queryset self) = Inr q1 \<and>
           table_names self ''collection_table'' = Some c \<and>
           core q = core q1 \<and>
           layers q = layers q1 @ containment_layer c # rest"
proof -
  let ?args = "arguments su rk ac dc tu"
  from assms obtain q3 where
    s: "structural_joins env self ?args = Inr q3" and
    a: "attach_all env self ?args source_order q3 = Inr q"
    by (auto simp: filter_by_hierarchy_in_order filter_in_order_def bind_eq_Inr)
  from structural_joins_Inr [OF s] obtain q1 c rest q0 t w where
    q1: "step_1a env self tu (queryset self) = Inr q1" and
    c: "table_names self ''collection_table'' = Some c" and
    q3: "core q3 = core q1" "layers q3 = layers q1 @ containment_layer c # rest"
        "q3 = Extra q0 t w"
    by (auto simp: containment_layer_def)
  from a q3 have "attach_all env self ?args source_order (Extra q0 t w) = Inr q"
    by simp
  from attach_all_Inr [OF this] q3 have
    "core q = core q1"
    "layers q = layers q1 @ containment_layer c #
       (rest @ concat (map (\<lambda>p. clause_layer (param_clause env self ?args p)) source_order))"
    by auto
  with q1 c show ?thesis
    by blast
qed

lemma filter_by_hierarchy_clauses:
  assumes "filter_by_hierarchy env self su rk ac dc tu = Inr q"
  shows "\<exists>c. param_clause env self (arguments su rk ac dc tu) p = Inr c \<and>
             set (clause_layer (Inr c)) \<subseteq> set (layers q)"
proof -
  let ?args = "arguments su rk ac dc tu"
  from assms obtain q3 where
    s: "structural_joins env self ?args = Inr q3" and
    a: "attach_all env self ?args source_order q3 = Inr q"
    by (auto simp: filter_by_hierarchy_in_order filter_in_order_def bind_eq_Inr)
  from structural_joins_Inr [OF s] obtain q0 t w where "q3 = Extra q0 t w"
    by blast
  with a have "attach_all env self ?args source_order (Extra q0 t w) = Inr q"
    by simp
  from attach_all_Inr [OF this] have
    l: "layers q = layers (Extra q0 t w) @
          concat (map (\<lambda>p. clause_layer (param_clause env self ?args p)) source_order)" and
    ok: "\<forall>p \<in> set source_order. \<not> isl (param_clause env self ?args p)"
    by simp_all
  have mem: "p \<in> set source_order"
    by (cases p) (simp_all add: source_order_def)
  with ok obtain c where c: "param_clause env self ?args p = Inr c"
    by (cases "param_clause env self ?args p") auto
  from mem have "set (clause_layer (param_clause env self ?args p)) \<subseteq> set (layers q)"
    unfolding l by auto
  with c show ?thesis
    by simp
qed

lemma id_clause_Inr:
  assumes "truthy ref" and "id_clause template env self ref = Inr c"
  shows "\<exists>r cl. as_sql_reference env self ref = Inr r \<and>
           py_format template [''id'' \<mapsto> py_str r] = Inr cl \<and> c = Some cl"
  using assms by (auto simp: id_clause_def bind_eq_Inr)

lemma str_items_strings: "str_items (map (\<lambda>k. Scalar (SStr k)) ks) = Inr ks"
  by (induction ks) simp_all

lemma kind_clause_string:
  "k \<noteq> [] \<Longrightarrow> kind_clause (Scalar (SStr k)) = Inr (Some (in_clause [k]))"
  by (simp add: kind_clause_def in_clause_def format_kinds format_role_kind)

lemma kind_clause_strings:
  "ks \<noteq> [] \<Longrightarrow> kind_clause (PList (map (\<lambda>k. Scalar (SStr k)) ks)) = Inr (Some (in_clause ks))"
  by (simp add: kind_clause_def in_clause_def format_kinds format_role_kind str_items_strings)

lemma filter_by_hierarchy_role_layer:
  assumes "filter_by_hierarchy env self su rk ac dc tu = Inr q"
    and "truthy su \<or> truthy rk"
  shows "\<exists>fu r. table_names self ''facilityuser_table'' = Some fu \<and>
           table_names self ''role_table'' = Some r \<and>
           (Some [aliased fu ''source_user'', aliased r ''role''],
            Some [''role.user_id = source_user.id'',
                  ''role.collection_id = ancestor_collection.id'']) \<in> set (layers q)"
proof -
  let ?args = "arguments su rk ac dc tu"
  from assms(1) obtain q3 where
    s: "structural_joins env self ?args = Inr q3" and
    a: "attach_all env self ?args source_order q3 = Inr q"
    by (auto simp: filter_by_hierarchy_in_order filter_in_order_def bind_eq_Inr)
  from s obtain q2 where c: "step_1c self su rk q2 = Inr q3"
    by (auto simp: structural_joins_def bind_eq_Inr)
  from step_1c_Inr [OF c] assms(2) obtain fu r where
    t: "table_names self ''facilityuser_table'' = Some fu"
       "table_names self ''role_table'' = Some r" and
    q3: "q3 = Extra q2 (Some [aliased fu ''source_user'', aliased r ''role''])
                (Some [''role.user_id = source_user.id'',
                       ''role.collection_id = ancestor_collection.id''])"
    by blast
  from a q3 attach_all_Inr [of env self ?args source_order q2] t show ?thesis
    by auto
qed

lemma exact_lookup:
  "(length lookups = Suc 0 \<and> hd lookups = ''exact'') = (lookups = [''exact''])"
  by (cases lookups) auto

lemma resolve_f_expression_non_exact:
  assumes "solve_lookup_type env name = Inr (lookups, parts)" and "lookups \<noteq> [''exact'']"
  shows "resolve_f_expression env self name =
           (case queryset self of
              ClassObject c \<Rightarrow> Inl AttributeError
            | _ \<Rightarrow> (case resolve_expression env name of
                      Inl e \<Rightarrow> Inl e
                    | Inr attname \<Rightarrow> Inl AssertionError))"
  using assms
  by (simp add: resolve_f_expression_def exact_lookup split: queryset.splits sum.splits)

lemma id_clause_fails:
  assumes "truthy ref" and "isl (as_sql_reference env self ref)"
  shows "isl (id_clause template env self ref)"
  using assms by (cases "as_sql_reference env self ref") (simp_all add: id_clause_def)

lemma filter_by_hierarchy_fails:
  assumes "isl (param_clause env self (arguments su rk ac dc tu) p)"
  shows "isl (filter_by_hierarchy env self su rk ac dc tu)"
proof (cases "filter_by_hierarchy env self su rk ac dc tu")
  case (Inl e)
  then show ?thesis by simp
next
  case (Inr q)
  from filter_by_hierarchy_clauses [OF Inr, of p] assms show ?thesis
    by auto
qed

lemma join_dot_Cons: "xs \<noteq> [] \<Longrightarrow> join sep (x # xs) = x @ sep @ join sep xs"
  by (cases xs) simp_all

text \<open>
  What a returning call has attached for its truthy parameters: for the source user, the
  two collections and the target user, the equality of the alias's id with the reference
  that \<^verbatim>\<open>_as_sql_reference\<close> resolved; for a role kind given as a non-empty string or as
  a non-empty list of strings, the clause \<^verbatim>\<open>role.kind IN (...)\<close>; and the source-user and
  role aliases when the source user or the role kind is truthy.
\<close>

lemma truthy_parameters_attached:
  assumes "filter_by_hierarchy env self su rk ac dc tu = Inr q"
  shows "(truthy su \<longrightarrow>
            (\<exists>r. as_sql_reference env self su = Inr r \<and>
                 (None, Some [''source_user.id = '' @ py_str r]) \<in> set (layers q))) \<and>
         (truthy ac \<longrightarrow>
            (\<exists>r. as_sql_reference env self ac = Inr r \<and>
                 (None, Some [''ancestor_collection.id = '' @ py_str r]) \<in> set (layers q))) \<and>
         (truthy dc \<longrightarrow>
            (\<exists>r. as_sql_reference env self dc = Inr r \<and>
                 (None, Some [''descendant_collection.id = '' @ py_str r]) \<in> set (layers q))) \<and>
         (truthy tu \<longrightarrow>
            (\<exists>r. as_sql_reference env self tu = Inr r \<and>
                 (None, Some [''target_user.id = '' @ py_str r]) \<in> set (layers q))) \<and>
         (\<forall>k. rk = Scalar (SStr k) \<and> k \<noteq> [] \<longrightarrow>
            (None, Some [in_clause [k]]) \<in> set (layers q)) \<and>
         (\<forall>ks. rk = PList (map (\<lambda>k. Scalar (SStr k)) ks) \<and> ks \<noteq> [] \<longrightarrow>
            (None, Some [in_clause ks]) \<in> set (layers q)) \<and>
         (truthy su \<or> truthy rk \<longrightarrow>
            (\<exists>fu r. table_names self ''facilityuser_table'' = Some fu \<and>
               table_names self ''role_table'' = Some r \<and>
               (Some [aliased fu ''source_user'', aliased r ''role''],
                Some [''role.user_id = source_user.id'',
                      ''role.collection_id = ancestor_collection.id'']) \<in> set (layers q)))"
proof -
  note cl = filter_by_hierarchy_clauses [OF assms]
  have su: "\<exists>r. as_sql_reference env self su = Inr r \<and>
              (None, Some [''source_user.id = '' @ py_str r]) \<in> set (layers q)" if "truthy su"
    using cl [of SourceUser] id_clause_Inr [OF that, of "''source_user.id = {id}''" env self]
    by (auto simp: format_source_user_id)
  have ac: "\<exists>r. as_sql_reference env self ac = Inr r \<and>
              (None, Some [''ancestor_collection.id = '' @ py_str r]) \<in> set (layers q)" if "truthy ac"
    using cl [of AncestorCollection]
      id_clause_Inr [OF that, of "''ancestor_collection.id = {id}''" env self]
    by (auto simp: format_ancestor_id)
  have dc: "\<exists>r. as_sql_reference env self dc = Inr r \<and>
              (None, Some [''descendant_collection.id = '' @ py_str r]) \<in> set (layers q)" if "truthy dc"
    using cl [of DescendantCollection]
      id_clause_Inr [OF that, of "''descendant_collection.id = {id}''" env self]
    by (auto simp: format_descendant_id)
  have tu: "\<exists>r. as_sql_reference env self tu = Inr r \<and>
              (None, Some [''target_user.id = '' @ py_str r]) \<in> set (layers q)" if "truthy tu"
    using cl [of TargetUser] id_clause_Inr [OF that, of "''target_user.id = {id}''" env self]
    by (auto simp: format_target_user_id)
  have k1: "(None, Some [in_clause [k]]) \<in> set (layers q)" if "rk = Scalar (SStr k)" "k \<noteq> []" for k
    using cl [of RoleKind] that by (simp add: kind_clause_string)
  have k2: "(None, Some [in_clause ks]) \<in> set (layers q)"
    if "rk = PList (map (\<lambda>k. Scalar (SStr k)) ks)" "ks \<noteq> []" for ks
    using cl [of RoleKind] that by (simp add: kind_clause_strings)
  note role = filter_by_hierarchy_role_layer [OF assms]
  from su ac dc tu k1 k2 role show ?thesis
    by blast
qed

text \<open>
  \<^verbatim>\<open>_as_sql_reference\<close> by cases: an object with an \<^verbatim>\<open>id\<close> attribute resolves to that
  id; a string or an integer (a bool is one) is returned unchanged; an \<^verbatim>\<open>F(name)\<close>
  resolves exactly when the stored queryset has a query, the field resolves, the lookup
  is the single \<^verbatim>\<open>exact\<close> and there is a part to replace, and then to the reference
  \<^verbatim>\<open>table.part. ... .attname\<close> qualified with the base table; \<^verbatim>\<open>None\<close>, a list, any
  other object and a tuple of one element raise the exception "Not a valid reference";
  a tuple of any other length raises TypeError.
\<close>

lemma as_sql_reference_cases:
  "as_sql_reference env self (Instance i) = Inr i \<and>
   as_sql_reference env self (Scalar (SStr s)) = Inr (SStr s) \<and>
   as_sql_reference env self (Scalar (SInt n)) = Inr (SInt n) \<and>
   as_sql_reference env self (Scalar (SBool b)) = Inr (SBool b) \<and>
   (\<forall>r. (as_sql_reference env self (FExpr name) = Inr r) =
        (\<exists>attname parts.
           (\<forall>c. queryset self \<noteq> ClassObject c) \<and>
           resolve_expression env name = Inr attname \<and>
           solve_lookup_type env name = Inr ([''exact''], parts) \<and> parts \<noteq> [] \<and>
           r = SStr (model_db_table env @ ''.'' @ join ''.'' (butlast parts @ [attname])))) \<and>
   as_sql_reference env self (Scalar SNone) = Inl (NotAValidReference (Scalar SNone)) \<and>
   as_sql_reference env self (PList xs) = Inl (NotAValidReference (PList xs)) \<and>
   as_sql_reference env self (PTuple [x]) = Inl (NotAValidReference x) \<and>
   as_sql_reference env self (PTuple []) = Inl TypeError \<and>
   as_sql_reference env self (PTuple (x # y # zs)) = Inl TypeError \<and>
   as_sql_reference env self (Other t) = Inl (NotAValidReference (Other t))"
proof -
  have "(as_sql_reference env self (FExpr name) = Inr r) =
        (\<exists>attname parts.
           (\<forall>c. queryset self \<noteq> ClassObject c) \<and>
           resolve_expression env name = Inr attname \<and>
           solve_lookup_type env name = Inr ([''exact''], parts) \<and> parts \<noteq> [] \<and>
           r = SStr (model_db_table env @ ''.'' @ join ''.'' (butlast parts @ [attname])))" for r
    by (cases "queryset self")
       (auto simp: resolve_f_expression_def bind_eq_Inr exact_lookup join_dot_Cons
          split: if_splits)
  then show ?thesis
    by simp
qed

section \<open>The claims\<close>

text \<open>
  C1. For every call of \<^verbatim>\<open>filter_by_hierarchy\<close> with a truthy \<^verbatim>\<open>target_user\<close> that
  returns, the result is a stack of \<^verbatim>\<open>extra\<close> calls on the union
  \<^verbatim>\<open>member_via_facility | member_via_hierarchy\<close> of exactly two querysets, each one
  \<^verbatim>\<open>extra\<close> call on the stored base queryset: the first adds only the two where-clauses
  that the ancestor collection's kind is FACILITY and that its dataset is the target
  user's (no tables, no Membership join); the second adds the target-user and membership
  tables with the clauses \<^verbatim>\<open>membership.user_id = target_user.id\<close> and
  \<^verbatim>\<open>membership.collection_id = descendant_collection.id\<close>. Every other join is attached
  on top of the union, the containment join first.
\<close>

theorem target_user_union_before_joins:
  assumes "truthy target_user"
    and "filter_by_hierarchy env self su rk ac dc target_user = Inr q"
  shows "\<exists>fu m c rest.
           table_names self ''facilityuser_table'' = Some fu \<and>
           table_names self ''membership_table'' = Some m \<and>
           table_names self ''collection_table'' = Some c \<and>
           core q =
             Union
               (Extra (queryset self) None
                  (Some [''ancestor_collection.kind = '' @ [CHR 0x27] @ FACILITY env @ [CHR 0x27],
                         ''ancestor_collection.dataset_id = target_user.dataset_id'']))
               (Extra (queryset self)
                  (Some [aliased fu ''target_user'', aliased m ''membership''])
                  (Some [''membership.user_id = target_user.id'',
                         ''membership.collection_id = descendant_collection.id''])) \<and>
           layers q = containment_layer c # rest"
proof -
  from filter_by_hierarchy_Inr [OF assms(2)] obtain q1 c rest where
    q1: "step_1a env self target_user (queryset self) = Inr q1" and
    c: "table_names self ''collection_table'' = Some c" and
    q: "core q = core q1" "layers q = layers q1 @ containment_layer c # rest"
    by blast
  from step_1a_Inr [OF q1] assms(1) obtain fu m where
    "table_names self ''facilityuser_table'' = Some fu"
    "table_names self ''membership_table'' = Some m"
    "q1 = Union
            (Extra (queryset self) None
               (Some [''ancestor_collection.kind = '' @ [CHR 0x27] @ FACILITY env @ [CHR 0x27],
                      ''ancestor_collection.dataset_id = target_user.dataset_id'']))
            (Extra (queryset self)
               (Some [aliased fu ''target_user'', aliased m ''membership''])
               (Some [''membership.user_id = target_user.id'',
                      ''membership.collection_id = descendant_collection.id'']))"
    by blast
  with c q show ?thesis
    by simp
qed

theorem target_user_union_before_joins_witness:
  "truthy (Instance (SInt 7)) \<and>
   filter_by_hierarchy example_env example_self (FExpr ''id'') (Scalar (SStr ''admin''))
     (Scalar SNone) (Scalar (SInt 12)) (Instance (SInt 7)) = Inr example_result \<and>
   core example_result =
     Union
       (Extra (ObjectsAll ''FacilityUser'') None
          (Some [''ancestor_collection.kind = '' @ [CHR 0x27] @ ''facility'' @ [CHR 0x27],
                 ''ancestor_collection.dataset_id = target_user.dataset_id'']))
       (Extra (ObjectsAll ''FacilityUser'')
          (Some [aliased ''auth_facilityuser'' ''target_user'',
                 aliased ''auth_membership'' ''membership''])
          (Some [''membership.user_id = target_user.id'',
                 ''membership.collection_id = descendant_collection.id''])) \<and>
   hd (layers example_result) = containment_layer ''auth_collection''"
proof -
  have t: "truthy (Instance (SInt 7))"
    by simp
  have ex: "table_names example_self ''facilityuser_table'' = Some ''auth_facilityuser''"
    "table_names example_self ''membership_table'' = Some ''auth_membership''"
    "table_names example_self ''collection_table'' = Some ''auth_collection''"
    "queryset example_self = ObjectsAll ''FacilityUser''"
    "FACILITY example_env = ''facility''"
    by (simp_all add: example_self_def example_env_def)
  from target_user_union_before_joins [OF t example_run] obtain fu m c rest where
    "table_names example_self ''facilityuser_table'' = Some fu"
    "table_names example_self ''membership_table'' = Some m"
    "table_names example_self ''collection_table'' = Some c"
    "core example_result =
       Union
         (Extra (queryset example_self) None
            (Some [''ancestor_collection.kind = '' @ [CHR 0x27] @ FACILITY example_env @ [CHR 0x27],
                   ''ancestor_collection.dataset_id = target_user.dataset_id'']))
         (Extra (queryset example_self)
            (Some [aliased fu ''target_user'', aliased m ''membership''])
            (Some [''membership.user_id = target_user.id'',
                   ''membership.collection_id = descendant_collection.id'']))"
    "layers example_result = containment_layer c # rest"
    by blast
  with ex t example_run show ?thesis
    by simp
qed

text \<open>
  C1 as stated speaks of every non-null \<^verbatim>\<open>target_user\<close>. The integer 0 is not null but
  falsy, and with it no union is formed: the result is the base with the containment join
  only.
\<close>

theorem falsy_target_user_no_union:
  "Scalar (SInt 0) \<noteq> Scalar SNone \<and>
   filter_by_hierarchy example_env example_self (Scalar SNone) (Scalar SNone) (Scalar SNone)
     (Scalar SNone) (Scalar (SInt 0)) =
   Inr (Extra (ObjectsAll ''FacilityUser'')
          (Some [''\"auth_collection\" AS \"ancestor_collection\"'',
                 ''\"auth_collection\" AS \"descendant_collection\"''])
          (Some [''descendant_collection.lft BETWEEN ancestor_collection.lft AND ancestor_collection.rght'']))"
  by (simp add: run_simps)

text \<open>
  C2. Whatever the five arguments are, every result of \<^verbatim>\<open>filter_by_hierarchy\<close> has the
  containment layer among its \<^verbatim>\<open>extra\<close> calls: the ancestor and descendant aliases of the
  collection table and the single clause
  \<^verbatim>\<open>descendant_collection.lft BETWEEN ancestor_collection.lft AND ancestor_collection.rght\<close>.
  With all five arguments \<^verbatim>\<open>None\<close>, on an instance that stores a queryset and knows the
  collection table, the call returns the base queryset extended with exactly this layer.
\<close>

theorem containment_join_always_attached:
  "(\<forall>q. filter_by_hierarchy env self su rk ac dc tu = Inr q \<longrightarrow>
      (\<exists>c. table_names self ''collection_table'' = Some c \<and>
           containment_layer c \<in> set (layers q))) \<and>
   (\<forall>c. table_names self ''collection_table'' = Some c \<and>
        (\<forall>n. queryset self \<noteq> ClassObject n) \<longrightarrow>
      filter_by_hierarchy env self (Scalar SNone) (Scalar SNone) (Scalar SNone) (Scalar SNone)
        (Scalar SNone) =
      Inr (Extra (queryset self) (fst (containment_layer c)) (snd (containment_layer c))))"
proof (intro conjI allI impI)
  fix q
  assume "filter_by_hierarchy env self su rk ac dc tu = Inr q"
  from filter_by_hierarchy_Inr [OF this]
  show "\<exists>c. table_names self ''collection_table'' = Some c \<and> containment_layer c \<in> set (layers q)"
    by auto
next
  fix c
  assume "table_names self ''collection_table'' = Some c \<and> (\<forall>n. queryset self \<noteq> ClassObject n)"
  then show "filter_by_hierarchy env self (Scalar SNone) (Scalar SNone) (Scalar SNone)
      (Scalar SNone) (Scalar SNone) =
    Inr (Extra (queryset self) (fst (containment_layer c)) (snd (containment_layer c)))"
    by (cases "queryset self")
       (simp_all add: filter_by_hierarchy_def step_1a_def step_1b_def step_1c_def
          constrain_source_user_def constrain_ancestor_collection_def
          constrain_descendant_collection_def constrain_target_user_def
          constrain_id_def constrain_role_kind_def add_extras_collection containment_layer_def)
qed

theorem containment_join_always_attached_witness:
  "filter_by_hierarchy example_env example_self (FExpr ''id'') (Scalar (SStr ''admin''))
     (Scalar SNone) (Scalar (SInt 12)) (Instance (SInt 7)) = Inr example_result \<and>
   containment_layer ''auth_collection'' \<in> set (layers example_result) \<and>
   filter_by_hierarchy example_env example_self (Scalar SNone) (Scalar SNone) (Scalar SNone)
     (Scalar SNone) (Scalar SNone) =
   Inr (Extra (ObjectsAll ''FacilityUser'')
          (Some [''\"auth_collection\" AS \"ancestor_collection\"'',
                 ''\"auth_collection\" AS \"descendant_collection\"''])
          (Some [''descendant_collection.lft BETWEEN ancestor_collection.lft AND ancestor_collection.rght'']))"
proof -
  have ex: "table_names example_self ''collection_table'' = Some ''auth_collection''"
    "queryset example_self = ObjectsAll ''FacilityUser''"
    by (simp_all add: example_self_def)
  from containment_join_always_attached [of example_env example_self "FExpr ''id''"
      "Scalar (SStr ''admin'')" "Scalar SNone" "Scalar (SInt 12)" "Instance (SInt 7)"]
  have a: "\<exists>c. table_names example_self ''collection_table'' = Some c \<and>
             containment_layer c \<in> set (layers example_result)"
    and b: "filter_by_hierarchy example_env example_self (Scalar SNone) (Scalar SNone)
              (Scalar SNone) (Scalar SNone) (Scalar SNone) =
            Inr (Extra (queryset example_self) (fst (containment_layer ''auth_collection''))
                   (snd (containment_layer ''auth_collection'')))"
    using example_run ex by auto
  from a ex have "containment_layer ''auth_collection'' \<in> set (layers example_result)"
    by auto
  with b ex example_run show ?thesis
    by (simp add: containment_layer_def aliased_def)
qed

text \<open>
  C3 at \<^verbatim>\<open>role_kind=F("id")\<close>. The reference resolver accepts \<^verbatim>\<open>F("id")\<close>, and the call
  with it as \<^verbatim>\<open>source_user\<close> returns with the equality attached. The call with it as
  \<^verbatim>\<open>role_kind\<close> raises TypeError: the role-kind block never calls the resolver and
  hands the value to \<^verbatim>\<open>str.join\<close>. The same holds for a model instance and for an
  integer as \<^verbatim>\<open>role_kind\<close>; with an \<^verbatim>\<open>F\<close> expression or a model instance as
  \<^verbatim>\<open>role_kind\<close> no call returns, whatever the other arguments are.
\<close>

theorem role_kind_reference_raises_type_error:
  "as_sql_reference example_env example_self (FExpr ''id'') = Inr (SStr ''auth_facilityuser.id'') \<and>
   filter_by_hierarchy example_env example_self (FExpr ''id'') (Scalar SNone) (Scalar SNone)
     (Scalar SNone) (Scalar SNone) =
   Inr (Extra (Extra (Extra (ObjectsAll ''FacilityUser'')
          (Some [''\"auth_collection\" AS \"ancestor_collection\"'',
                 ''\"auth_collection\" AS \"descendant_collection\"''])
          (Some [''descendant_collection.lft BETWEEN ancestor_collection.lft AND ancestor_collection.rght'']))
          (Some [''\"auth_facilityuser\" AS \"source_user\"'', ''\"auth_role\" AS \"role\"''])
          (Some [''role.user_id = source_user.id'', ''role.collection_id = ancestor_collection.id'']))
          None (Some [''source_user.id = auth_facilityuser.id''])) \<and>
   filter_by_hierarchy example_env example_self (Scalar SNone) (FExpr ''id'') (Scalar SNone)
     (Scalar SNone) (Scalar SNone) = Inl TypeError \<and>
   filter_by_hierarchy example_env example_self (Scalar SNone) (Instance (SInt 7)) (Scalar SNone)
     (Scalar SNone) (Scalar SNone) = Inl TypeError \<and>
   filter_by_hierarchy example_env example_self (Scalar SNone) (Scalar (SInt 3)) (Scalar SNone)
     (Scalar SNone) (Scalar SNone) = Inl TypeError \<and>
   isl (filter_by_hierarchy env self su (FExpr name) ac dc tu) \<and>
   isl (filter_by_hierarchy env self su (Instance i) ac dc tu)"
proof -
  have "isl (filter_by_hierarchy env self su (FExpr name) ac dc tu)"
    by (rule filter_by_hierarchy_fails [of _ _ _ _ _ _ _ RoleKind]) (simp add: kind_clause_def)
  moreover have "isl (filter_by_hierarchy env self su (Instance i) ac dc tu)"
    by (rule filter_by_hierarchy_fails [of _ _ _ _ _ _ _ RoleKind]) (simp add: kind_clause_def)
  ultimately show ?thesis
    by (simp add: run_simps)
qed

text \<open>
  C4. For an \<^verbatim>\<open>F(name)\<close> whose solved lookups are anything but the single lookup
  \<^verbatim>\<open>exact\<close>, resolving always raises: \<^verbatim>\<open>_resolve_f_expression\<close> and
  \<^verbatim>\<open>_as_sql_reference\<close> return no reference, and \<^verbatim>\<open>filter_by_hierarchy\<close> with it as
  source user, ancestor, descendant or target user returns no queryset, so no equality
  condition is ever attached for it. On a stored queryset the exception is the one of the
  field resolution when that raises (it runs first), and the AssertionError of the
  lookup check (the spec's UnsupportedLookupQualifier) otherwise.
\<close>

theorem non_equality_lookup_always_fails:
  assumes "solve_lookup_type env name = Inr (lookups, parts)"
    and "lookups \<noteq> [''exact'']"
  shows "isl (resolve_f_expression env self name) \<and>
         isl (as_sql_reference env self (FExpr name)) \<and>
         ((\<forall>c. queryset self \<noteq> ClassObject c) \<longrightarrow>
            resolve_f_expression env self name =
              (case resolve_expression env name of
                 Inl e \<Rightarrow> Inl e
               | Inr attname \<Rightarrow> Inl AssertionError)) \<and>
         isl (filter_by_hierarchy env self (FExpr name) rk ac dc tu) \<and>
         isl (filter_by_hierarchy env self su rk (FExpr name) dc tu) \<and>
         isl (filter_by_hierarchy env self su rk ac (FExpr name) tu) \<and>
         isl (filter_by_hierarchy env self su rk ac dc (FExpr name))"
proof -
  note r = resolve_f_expression_non_exact [OF assms, of self]
  have a: "isl (resolve_f_expression env self name)"
    unfolding r by (simp split: queryset.splits sum.splits)
  then have b: "isl (as_sql_reference env self (FExpr name))"
    by (cases "resolve_f_expression env self name") simp_all
  have c: "resolve_f_expression env self name =
      (case resolve_expression env name of Inl e \<Rightarrow> Inl e | Inr attname \<Rightarrow> Inl AssertionError)"
    if "\<forall>c. queryset self \<noteq> ClassObject c"
    unfolding r using that by (cases "queryset self") simp_all
  have f: "isl (id_clause template env self (FExpr name))" for template
    by (rule id_clause_fails) (simp_all add: b del: as_sql_reference.simps)
  have "isl (filter_by_hierarchy env self (FExpr name) rk ac dc tu)"
    by (rule filter_by_hierarchy_fails [of _ _ _ _ _ _ _ SourceUser]) (simp add: f)
  moreover have "isl (filter_by_hierarchy env self su rk (FExpr name) dc tu)"
    by (rule filter_by_hierarchy_fails [of _ _ _ _ _ _ _ AncestorCollection]) (simp add: f)
  moreover have "isl (filter_by_hierarchy env self su rk ac (FExpr name) tu)"
    by (rule filter_by_hierarchy_fails [of _ _ _ _ _ _ _ DescendantCollection]) (simp add: f)
  moreover have "isl (filter_by_hierarchy env self su rk ac dc (FExpr name))"
    by (rule filter_by_hierarchy_fails [of _ _ _ _ _ _ _ TargetUser]) (simp add: f)
  ultimately have "isl (filter_by_hierarchy env self (FExpr name) rk ac dc tu)"
    "isl (filter_by_hierarchy env self su rk (FExpr name) dc tu)"
    "isl (filter_by_hierarchy env self su rk ac (FExpr name) tu)"
    "isl (filter_by_hierarchy env self su rk ac dc (FExpr name))"
    by simp_all
  with a b c show ?thesis
    by blast
qed

theorem non_equality_lookup_always_fails_witness:
  "solve_lookup_type example_env_lenient ''id__gt'' = Inr ([''gt''], [''id'']) \<and>
   [''gt''] \<noteq> [''exact''] \<and>
   resolve_f_expression example_env_lenient example_self ''id__gt'' = Inl AssertionError \<and>
   isl (filter_by_hierarchy example_env_lenient example_self (FExpr ''id__gt'') (Scalar SNone)
          (Scalar SNone) (Scalar SNone) (Scalar SNone))"
proof -
  have s: "solve_lookup_type example_env_lenient ''id__gt'' = Inr ([''gt''], [''id''])"
    by (simp add: example_env_lenient_def example_env_def)
  have n: "[''gt''] \<noteq> [''exact'']"
    by simp
  have q: "\<forall>c. queryset example_self \<noteq> ClassObject c"
    by (simp add: example_self_def)
  have e: "resolve_expression example_env_lenient ''id__gt'' = Inr ''id''"
    by (simp add: example_env_lenient_def)
  from non_equality_lookup_always_fails [OF s n, of example_self "Scalar SNone" "Scalar SNone"
      "Scalar SNone" "Scalar SNone"] q e s n
  show ?thesis
    by simp
qed

text \<open>
  C4 as stated has the failure always be UnsupportedLookupQualifier. In a schema where
  \<^verbatim>\<open>id__gt\<close> does not resolve as a field reference, the field resolution, which the
  code calls before it looks at the lookups, raises first, and the call ends with
  FieldError.
\<close>

theorem field_error_before_lookup_check:
  "solve_lookup_type example_env ''id__gt'' = Inr ([''gt''], [''id'']) \<and>
   resolve_f_expression example_env example_self ''id__gt'' = Inl FieldError \<and>
   as_sql_reference example_env example_self (FExpr ''id__gt'') = Inl FieldError"
  by (simp add: resolve_f_expression_def example_env_def example_self_def)

text \<open>
  C5 at the tuple \<^verbatim>\<open>(1, 2)\<close>. It has no \<^verbatim>\<open>id\<close>, is no string, integer or \<^verbatim>\<open>F\<close>
  expression, so it reaches the last branch of \<^verbatim>\<open>_as_sql_reference\<close>, and there
  building the message raises TypeError before the exception "Not a valid reference" is
  raised; so does the call of \<^verbatim>\<open>filter_by_hierarchy\<close> with it as \<^verbatim>\<open>source_user\<close>. The
  same happens for the empty tuple and every tuple of two or more elements, while a list
  and a tuple of one element raise "Not a valid reference".
\<close>

theorem tuple_reference_raises_type_error:
  "as_sql_reference example_env example_self (PTuple [Scalar (SInt 1), Scalar (SInt 2)]) =
     Inl TypeError \<and>
   filter_by_hierarchy example_env example_self (PTuple [Scalar (SInt 1), Scalar (SInt 2)])
     (Scalar SNone) (Scalar SNone) (Scalar SNone) (Scalar SNone) = Inl TypeError \<and>
   as_sql_reference env self (PTuple []) = Inl TypeError \<and>
   as_sql_reference env self (PTuple (x # y # zs)) = Inl TypeError \<and>
   as_sql_reference env self (PTuple [x]) = Inl (NotAValidReference x) \<and>
   as_sql_reference env self (PList xs) = Inl (NotAValidReference (PList xs))"
  by (simp add: run_simps)




text \<open>
  C7. For every choice of the five arguments, attaching the five value constraints of
  step 2 in any permutation \<open>ps\<close> of the source's order, after the structural joins of
  step 1, raises exactly when the source's order raises, and when both return, the two
  results have the same core, the same layers up to their order, and hence the same
  truth value under every valuation of the raw clauses: the constraints are conjunctive
  and order-independent.
\<close>

theorem value_constraints_order_independent:
  assumes "mset ps = mset source_order"
  shows "isl (filter_in_order env self (arguments su rk ac dc tu) ps) =
           isl (filter_by_hierarchy env self su rk ac dc tu) \<and>
         (\<forall>q q'. filter_by_hierarchy env self su rk ac dc tu = Inr q \<and>
                  filter_in_order env self (arguments su rk ac dc tu) ps = Inr q' \<longrightarrow>
                  core q' = core q \<and> mset (layers q') = mset (layers q) \<and>
                  (\<forall>val. holds val q' = holds val q))"
proof -
  let ?args = "arguments su rk ac dc tu"
  let ?lay = "\<lambda>p. clause_layer (param_clause env self ?args p)"
  have src: "filter_by_hierarchy env self su rk ac dc tu = filter_in_order env self ?args source_order"
    by (rule filter_by_hierarchy_in_order)
  from assms have sets: "set ps = set source_order"
    by (rule mset_eq_setD)
  show ?thesis
  proof (cases "structural_joins env self ?args")
    case (Inl e)
    then show ?thesis
      by (simp add: src filter_in_order_def)
  next
    case (Inr q3)
    from structural_joins_Inr [OF Inr] obtain q0 t w where q3: "q3 = Extra q0 t w"
      by blast
    have run: "filter_in_order env self ?args xs = attach_all env self ?args xs (Extra q0 t w)" for xs
      by (simp add: filter_in_order_def Inr q3)
    have fails: "isl (attach_all env self ?args xs (Extra q0 t w)) =
                   (\<exists>p \<in> set xs. isl (param_clause env self ?args p))" for xs
    proof (cases "attach_all env self ?args xs (Extra q0 t w)")
      case (Inl e)
      with attach_all_succeeds [of xs env self ?args q0 t w] show ?thesis
        by auto
    next
      case (Inr q')
      with attach_all_Inr [OF Inr] show ?thesis
        by auto
    qed
    have first: "isl (filter_in_order env self ?args ps) = isl (filter_by_hierarchy env self su rk ac dc tu)"
      by (simp add: src run fails sets)
    have second: "core q' = core q \<and> mset (layers q') = mset (layers q) \<and>
                  (\<forall>val. holds val q' = holds val q)"
      if a: "filter_by_hierarchy env self su rk ac dc tu = Inr q"
        and b: "filter_in_order env self ?args ps = Inr q'" for q q'
    proof -
      from a have "attach_all env self ?args source_order (Extra q0 t w) = Inr q"
        by (simp add: src run)
      from attach_all_Inr [OF this]
      have q: "core q = core q0" "layers q = layers (Extra q0 t w) @ concat (map ?lay source_order)"
        by simp_all
      from b have "attach_all env self ?args ps (Extra q0 t w) = Inr q'"
        by (simp add: run)
      from attach_all_Inr [OF this]
      have q': "core q' = core q0" "layers q' = layers (Extra q0 t w) @ concat (map ?lay ps)"
        by simp_all
      have "mset (concat (map ?lay ps)) = mset (concat (map ?lay source_order))"
        by (simp only: mset_concat_map assms)
      with q q' have m: "mset (layers q') = mset (layers q)"
        by simp
      then have "set (layers q') = set (layers q)"
        by (rule mset_eq_setD)
      with q q' have "holds val q' = holds val q" for val
        by (simp add: holds_core_layers [of val q'] holds_core_layers [of val q] list_all_iff)
      with q q' m show ?thesis
        by simp
    qed
    from first second show ?thesis
      by blast
  qed
qed

theorem value_constraints_order_independent_witness:
  "mset [TargetUser, DescendantCollection, AncestorCollection, RoleKind, SourceUser] =
     mset source_order \<and>
   filter_by_hierarchy example_env example_self (FExpr ''id'') (Scalar (SStr ''admin''))
     (Scalar SNone) (Scalar (SInt 12)) (Instance (SInt 7)) = Inr example_result \<and>
   \<not> isl (filter_in_order example_env example_self
            (arguments (FExpr ''id'') (Scalar (SStr ''admin'')) (Scalar SNone)
               (Scalar (SInt 12)) (Instance (SInt 7)))
            [TargetUser, DescendantCollection, AncestorCollection, RoleKind, SourceUser])"
proof -
  have p: "mset [TargetUser, DescendantCollection, AncestorCollection, RoleKind, SourceUser] =
             mset source_order"
    by (simp add: source_order_def)
  from value_constraints_order_independent [OF p, of example_env example_self
      "FExpr ''id''" "Scalar (SStr ''admin'')" "Scalar SNone" "Scalar (SInt 12)"
      "Instance (SInt 7)"]
  show ?thesis
    using p by (simp add: example_run)
qed

text \<open>
  C9. Presence is decided by the truth test. For every falsy value \<open>v\<close> (the integer 0,
  the empty string and the empty list among them) and each of the five parameters, the
  call with \<open>v\<close> for that parameter has the same outcome as the call with \<^verbatim>\<open>None\<close> for
  it, whatever the other arguments are: its structural join and its value constraint are
  both skipped.
\<close>

theorem falsy_parameter_as_omitted:
  assumes "\<not> truthy v"
  shows "filter_by_hierarchy env self v rk ac dc tu =
           filter_by_hierarchy env self (Scalar SNone) rk ac dc tu \<and>
         filter_by_hierarchy env self su v ac dc tu =
           filter_by_hierarchy env self su (Scalar SNone) ac dc tu \<and>
         filter_by_hierarchy env self su rk v dc tu =
           filter_by_hierarchy env self su rk (Scalar SNone) dc tu \<and>
         filter_by_hierarchy env self su rk ac v tu =
           filter_by_hierarchy env self su rk ac (Scalar SNone) tu \<and>
         filter_by_hierarchy env self su rk ac dc v =
           filter_by_hierarchy env self su rk ac dc (Scalar SNone)"
  using assms
  by (simp add: filter_by_hierarchy_def step_1a_def step_1c_def constrain_source_user_def
      constrain_ancestor_collection_def constrain_descendant_collection_def
      constrain_target_user_def constrain_id_def constrain_role_kind_def)

theorem falsy_parameter_as_omitted_witness:
  "\<not> truthy (Scalar (SInt 0)) \<and> \<not> truthy (Scalar (SStr '''')) \<and> \<not> truthy (PList []) \<and>
   filter_by_hierarchy example_env example_self (FExpr ''id'') (Scalar (SStr ''admin''))
     (Scalar (SInt 0)) (Scalar (SInt 12)) (Instance (SInt 7)) = Inr example_result \<and>
   filter_by_hierarchy example_env example_self (FExpr ''id'') (Scalar (SStr ''admin''))
     (Scalar (SStr '''')) (Scalar (SInt 12)) (Instance (SInt 7)) = Inr example_result \<and>
   filter_by_hierarchy example_env example_self (FExpr ''id'') (Scalar (SStr ''admin''))
     (PList []) (Scalar (SInt 12)) (Instance (SInt 7)) = Inr example_result"
proof -
  have f: "\<not> truthy (Scalar (SInt 0))" "\<not> truthy (Scalar (SStr ''''))" "\<not> truthy (PList [])"
    by simp_all
  from falsy_parameter_as_omitted [OF f(1)] falsy_parameter_as_omitted [OF f(2)]
    falsy_parameter_as_omitted [OF f(3)] f
  show ?thesis
    by (simp add: example_run)
qed

text \<open>
  C10. The constructor applies \<^verbatim>\<open>issubclass\<close> to its argument directly: for an already
  built QuerySet object, which is not a class, it raises TypeError; for a subclass of
  \<^verbatim>\<open>models.Model\<close> it stores \<^verbatim>\<open>objects.all()\<close> of it; any other class it stores as it
  is; and it succeeds only when the argument is a class.
\<close>

theorem constructor_accepts_only_classes:
  "init env (QuerySetInstance qs) = Inl TypeError \<and>
   init env (Class name True) =
     Inr \<lparr> queryset = ObjectsAll name,
           table_names = [''role_table'' \<mapsto> role_db_table env,
                          ''collection_table'' \<mapsto> collection_db_table env,
                          ''membership_table'' \<mapsto> membership_db_table env,
                          ''facilityuser_table'' \<mapsto> facilityuser_db_table env] \<rparr> \<and>
   init env (Class name False) =
     Inr \<lparr> queryset = ClassObject name,
           table_names = [''role_table'' \<mapsto> role_db_table env,
                          ''collection_table'' \<mapsto> collection_db_table env,
                          ''membership_table'' \<mapsto> membership_db_table env,
                          ''facilityuser_table'' \<mapsto> facilityuser_db_table env] \<rparr> \<and>
   (\<forall>self. init env arg = Inr self \<longrightarrow> (\<exists>n m. arg = Class n m))"
  by (cases arg)
     (simp_all add: init_def issubclass_Model_def objects_all_def as_given_def)

theorem constructor_accepts_only_classes_witness:
  "init example_env (QuerySetInstance (ObjectsAll ''FacilityUser'')) = Inl TypeError \<and>
   init example_env (Class ''FacilityUser'' True) = Inr example_self \<and>
   queryset example_self = ObjectsAll ''FacilityUser''"
proof -
  from constructor_accepts_only_classes [of example_env "ObjectsAll ''FacilityUser''"
      "''FacilityUser''" "Class ''FacilityUser'' True"]
  show ?thesis
    by (simp add: example_env_def example_self_def)
qed

end
